theory Spec2Isabelle
  imports Main
begin

section \<open>The WebAssembly wrapper \<open>parse_bql_to_json\<close>\<close>

text \<open>
  The repository is one exported C function, \<^verbatim>\<open>parse_bql_to_json\<close> in
  \<^verbatim>\<open>wazbean_wrapper.cc\<close>. It reads a C string, calls the Beancount parser
  (\<^verbatim>\<open>beancount::parser::ParseString\<close>), calls the protobuf JSON serializer
  (\<^verbatim>\<open>google::protobuf::util::MessageToJsonString\<close>) and returns a pointer into
  the global \<^verbatim>\<open>std::string result_json\<close>.

  The two library functions are not part of the repository; they are parameters of the
  model. The global string is threaded explicitly: the function takes its contents before
  the call and returns its contents after it.
\<close>

subsection \<open>Data\<close>

text \<open>
  \<^verbatim>\<open>JsonPrintOptions\<close>: the two members the wrapper assigns, and the remaining
  members of the library's struct, which the wrapper never touches.
\<close>

record 'o JsonPrintOptions =
  add_whitespace :: bool
  always_print_primitive_fields :: bool
  other_members :: 'o

text \<open>
  \<^verbatim>\<open>ParseString(text, filename)\<close> returns a \<^verbatim>\<open>unique_ptr<Ledger>\<close>; the empty
  pointer is \<open>None\<close>.
\<close>

type_synonym 'l ParseString_fn = "string \<Rightarrow> string \<Rightarrow> 'l option"

text \<open>
  \<^verbatim>\<open>MessageToJsonString(message, &output, options)\<close> receives the output string by
  pointer: it sees the contents the string has on entry, and leaves new contents in it.
  The result is \<^verbatim>\<open>status.ok()\<close> together with the contents of the output string
  after the call.
\<close>

type_synonym ('l, 'o) MessageToJsonString_fn =
  "'l \<Rightarrow> string \<Rightarrow> 'o JsonPrintOptions \<Rightarrow> bool \<times> string"

text \<open>The calls the wrapper makes into the libraries, with their arguments, in order.\<close>

datatype ('l, 'o) extern_call =
    is_ParseString_call: ParseString_call string string
  | is_MessageToJsonString_call: MessageToJsonString_call 'l string "'o JsonPrintOptions"

text \<open>The four \<^verbatim>\<open>return\<close> statements of the function, in source order.\<close>

datatype return_stmt =
    Return_null_input
  | Return_null_ledger
  | Return_serialize_failed
  | Return_serialized

text \<open>
  A \<^verbatim>\<open>const char*\<close> result: the null pointer, or \<^verbatim>\<open>result_json.c_str()\<close>.
\<close>

datatype char_ptr = nullptr | result_json_c_str

text \<open>
  What one call leaves behind: the pointer returned, the contents of the global
  \<^verbatim>\<open>result_json\<close> afterwards, the \<^verbatim>\<open>return\<close> statement that was executed, and
  the library calls made.
\<close>

record ('l, 'o) call_result =
  returned :: char_ptr
  result_json :: string
  exit_at :: return_stmt
  extern_calls :: "('l, 'o) extern_call list"

text \<open>
  The text the caller reads through the returned pointer, before any later call. The
  pointer is a \<^verbatim>\<open>const char*\<close>: the reader stops at the first NUL byte, so it sees
  the contents of the buffer up to, and not including, the first NUL character.
\<close>

definition c_string :: "('l, 'o) call_result \<Rightarrow> string option" where
  "c_string r =
     (case returned r of
        nullptr \<Rightarrow> None
      | result_json_c_str \<Rightarrow> Some (takeWhile (\<lambda>c. c \<noteq> CHR 0x00) (result_json r)))"

subsection \<open>The function\<close>

text \<open>
  \<^verbatim>\<open>JsonPrintOptions json_options; json_options.add_whitespace = true;
  json_options.always_print_primitive_fields = true;\<close>
  The argument is the default-constructed struct.
\<close>

definition json_options :: "'o JsonPrintOptions \<Rightarrow> 'o JsonPrintOptions" where
  "json_options default_constructed =
     default_constructed\<lparr>add_whitespace := True, always_print_primitive_fields := True\<rparr>"

text \<open>
  \<open>query_string\<close> is the \<^verbatim>\<open>const char*\<close> argument, \<open>None\<close> for the null pointer;
  \<open>buf\<close> is the contents of \<^verbatim>\<open>result_json\<close> when the call starts.
\<close>

definition parse_bql_to_json ::
  "'l ParseString_fn \<Rightarrow> ('l, 'o) MessageToJsonString_fn \<Rightarrow> 'o JsonPrintOptions \<Rightarrow>
   string \<Rightarrow> string option \<Rightarrow> ('l, 'o) call_result" where
  \<open>parse_bql_to_json ParseString MessageToJsonString default_constructed buf query_string =
     (case query_string of
        None \<Rightarrow>
          \<lparr>returned = result_json_c_str,
           result_json = ''{"error": "Input query was null."}'',
           exit_at = Return_null_input,
           extern_calls = []\<rparr>
      | Some text \<Rightarrow>
          (case ParseString text ''<wazbean>'' of
             None \<Rightarrow>
               \<lparr>returned = result_json_c_str,
                result_json = ''{"error": "Parser returned a null ledger."}'',
                exit_at = Return_null_ledger,
                extern_calls = [ParseString_call text ''<wazbean>'']\<rparr>
           | Some ledger \<Rightarrow>
               (let opts = json_options default_constructed;
                    status = MessageToJsonString ledger buf opts;
                    trace = [ParseString_call text ''<wazbean>'',
                             MessageToJsonString_call ledger buf opts]
                in if \<not> fst status then
                     \<lparr>returned = result_json_c_str,
                      result_json = ''{"error": "Failed to serialize ledger to JSON."}'',
                      exit_at = Return_serialize_failed,
                      extern_calls = trace\<rparr>
                   else
                     \<lparr>returned = result_json_c_str,
                      result_json = snd status,
                      exit_at = Return_serialized,
                      extern_calls = trace\<rparr>)))\<close>

subsection \<open>Successive calls\<close>

text \<open>
  \<^verbatim>\<open>result_json\<close> is a global: each call starts with the contents the previous call
  left. \<open>calls_from\<close> runs the function on a list of arguments from given contents;
  a process starts with the empty string, which is \<open>session\<close>.
\<close>

fun calls_from ::
  "'l ParseString_fn \<Rightarrow> ('l, 'o) MessageToJsonString_fn \<Rightarrow> 'o JsonPrintOptions \<Rightarrow>
   string \<Rightarrow> string option list \<Rightarrow> ('l, 'o) call_result list" where
  "calls_from P S d buf [] = []"
| "calls_from P S d buf (q # qs) =
     (let r = parse_bql_to_json P S d buf q in r # calls_from P S d (result_json r) qs)"

definition session ::
  "'l ParseString_fn \<Rightarrow> ('l, 'o) MessageToJsonString_fn \<Rightarrow> 'o JsonPrintOptions \<Rightarrow>
   string option list \<Rightarrow> ('l, 'o) call_result list" where
  "session P S d qs = calls_from P S d [] qs"

subsection \<open>The serializer's handling of its output string\<close>

text \<open>
  The protobuf header documents \<^verbatim>\<open>MessageToJsonString\<close> as converting the message to
  JSON and appending it to the output string (it writes through a
  \<^verbatim>\<open>StringOutputStream\<close> on that string and does not clear it first).
  \<open>appending to_json\<close> is a serializer with that behaviour, where \<open>to_json\<close> gives the
  status and the JSON text produced for a message under given options.
\<close>

definition appending ::
  "('l \<Rightarrow> 'o JsonPrintOptions \<Rightarrow> bool \<times> string) \<Rightarrow> ('l, 'o) MessageToJsonString_fn" where
  "appending to_json message output opts =
     (fst (to_json message opts), output @ snd (to_json message opts))"

text \<open>Small collaborators used to run the function on concrete inputs.\<close>

definition text_ledger :: "string ParseString_fn" where
  "text_ledger text filename = Some text"

definition no_ledger :: "string ParseString_fn" where
  "no_ledger text filename = None"

definition empty_object :: "string \<Rightarrow> unit JsonPrintOptions \<Rightarrow> bool \<times> string" where
  "empty_object message opts = (True, ''{}'')"

definition truncated_object :: "string \<Rightarrow> unit JsonPrintOptions \<Rightarrow> bool \<times> string" where
  "truncated_object message opts = (False, ''{'')"

text \<open>
  The number of options that are switched on, where the remaining members of the struct
  are its other boolean flags.
\<close>

definition enabled_options :: "bool list JsonPrintOptions \<Rightarrow> nat" where
  "enabled_options opts =
     length (filter (\<lambda>b. b)
       (add_whitespace opts # always_print_primitive_fields opts # other_members opts))"

text \<open>
  A default-constructed struct with two further flags, all off, and a serializer whose
  text shows the two options it was given: \<^verbatim>\<open>W\<close> or \<^verbatim>\<open>w\<close> for
  \<^verbatim>\<open>add_whitespace\<close>, \<^verbatim>\<open>P\<close> or \<^verbatim>\<open>p\<close> for
  \<^verbatim>\<open>always_print_primitive_fields\<close>.
\<close>

definition four_flags_off :: "bool list JsonPrintOptions" where
  "four_flags_off =
     \<lparr>add_whitespace = False, always_print_primitive_fields = False,
      other_members = [False, False]\<rparr>"

definition options_echo :: "string \<Rightarrow> bool list JsonPrintOptions \<Rightarrow> bool \<times> string" where
  "options_echo message opts =
     (True, (if add_whitespace opts then ''W'' else ''w'') @
            (if always_print_primitive_fields opts then ''P'' else ''p''))"

definition all_off :: "unit JsonPrintOptions" where
  "all_off = \<lparr>add_whitespace = False, always_print_primitive_fields = False, other_members = ()\<rparr>"

section \<open>Properties\<close>

lemma parse_bql_to_json_never_null:
  "returned (parse_bql_to_json P S d buf q) = result_json_c_str"
  by (simp add: parse_bql_to_json_def Let_def split: option.split)

lemma parse_bql_to_json_null:
  \<open>parse_bql_to_json P S d buf None =
     \<lparr>returned = result_json_c_str,
      result_json = ''{"error": "Input query was null."}'',
      exit_at = Return_null_input,
      extern_calls = []\<rparr>\<close>
  by (simp add: parse_bql_to_json_def)

lemma parse_bql_to_json_null_ledger:
  assumes "P query ''<wazbean>'' = None"
  shows \<open>parse_bql_to_json P S d buf (Some query) =
     \<lparr>returned = result_json_c_str,
      result_json = ''{"error": "Parser returned a null ledger."}'',
      exit_at = Return_null_ledger,
      extern_calls = [ParseString_call query ''<wazbean>'']\<rparr>\<close>
  using assms by (simp add: parse_bql_to_json_def)

lemma parse_bql_to_json_serialize_failed:
  assumes "P query ''<wazbean>'' = Some ledger"
    and "\<not> fst (S ledger buf (json_options d))"
  shows \<open>parse_bql_to_json P S d buf (Some query) =
     \<lparr>returned = result_json_c_str,
      result_json = ''{"error": "Failed to serialize ledger to JSON."}'',
      exit_at = Return_serialize_failed,
      extern_calls = [ParseString_call query ''<wazbean>'',
                      MessageToJsonString_call ledger buf (json_options d)]\<rparr>\<close>
  using assms by (simp add: parse_bql_to_json_def Let_def)

lemma parse_bql_to_json_serialized:
  assumes "P query ''<wazbean>'' = Some ledger"
    and "fst (S ledger buf (json_options d))"
  shows \<open>parse_bql_to_json P S d buf (Some query) =
     \<lparr>returned = result_json_c_str,
      result_json = snd (S ledger buf (json_options d)),
      exit_at = Return_serialized,
      extern_calls = [ParseString_call query ''<wazbean>'',
                      MessageToJsonString_call ledger buf (json_options d)]\<rparr>\<close>
  using assms by (simp add: parse_bql_to_json_def Let_def)

text \<open>
  With a serializer that appends, a call that reaches the last \<^verbatim>\<open>return\<close> hands
  back the previous contents of the buffer followed by the new JSON text; the two agree
  only when the buffer was empty on entry.
\<close>

lemma appending_serialized:
  assumes "P query ''<wazbean>'' = Some ledger"
    and "fst (to_json ledger (json_options d))"
  shows "result_json (parse_bql_to_json P (appending to_json) d buf (Some query)) =
           buf @ snd (to_json ledger (json_options d))"
  using assms
  by (simp add: parse_bql_to_json_serialized appending_def)

lemma json_options_all_off:
  "json_options all_off =
     \<lparr>add_whitespace = True, always_print_primitive_fields = True, other_members = ()\<rparr>"
  by (simp add: json_options_def all_off_def)

subsection \<open>The null-input branch\<close>

text \<open>
  C3. For the null input pointer the function returns exactly the text
  \<^verbatim>\<open>{"error": "Input query was null."}\<close>, whatever the libraries are and whatever the
  buffer held before.
\<close>

theorem null_input_payload:
  \<open>c_string (parse_bql_to_json P S d buf None) = Some ''{"error": "Input query was null."}''\<close>
  by (simp add: parse_bql_to_json_null c_string_def)

text \<open>
  C9. For the null input pointer no library call is made: the trace of calls is empty, the
  only change is that the buffer holds the null-input payload, and the whole outcome is the
  same for any parser, serializer, default options and previous buffer contents.
\<close>

theorem null_input_skips_parser:
  \<open>extern_calls (parse_bql_to_json P S d buf None) = [] \<and>
   result_json (parse_bql_to_json P S d buf None) = ''{"error": "Input query was null."}'' \<and>
   exit_at (parse_bql_to_json P S d buf None) = Return_null_input \<and>
   parse_bql_to_json P S d buf None = parse_bql_to_json P' S' d' buf' None\<close>
  by (simp add: parse_bql_to_json_null)

subsection \<open>The returned pointer\<close>

text \<open>
  C8. On every path the function returns \<^verbatim>\<open>result_json.c_str()\<close>, never the null
  pointer, and the text read through the pointer is the contents of the global buffer, up
  to its first NUL character if it has one.
\<close>

theorem returns_buffer_pointer:
  "returned (parse_bql_to_json P S d buf q) \<noteq> nullptr \<and>
   returned (parse_bql_to_json P S d buf q) = result_json_c_str \<and>
   c_string (parse_bql_to_json P S d buf q) =
     Some (takeWhile (\<lambda>c. c \<noteq> CHR 0x00) (result_json (parse_bql_to_json P S d buf q)))"
  by (simp add: parse_bql_to_json_never_null c_string_def)

subsection \<open>The null-ledger branch\<close>

text \<open>
  C4. When the input is not null and the parser returns the empty pointer, the function
  returns exactly \<^verbatim>\<open>{"error": "Parser returned a null ledger."}\<close>, and the only library
  call of that invocation is the one call of the parser: the serializer is not called.
\<close>

theorem null_ledger_payload:
  assumes "P query ''<wazbean>'' = None"
  shows \<open>c_string (parse_bql_to_json P S d buf (Some query)) =
           Some ''{"error": "Parser returned a null ledger."}'' \<and>
         extern_calls (parse_bql_to_json P S d buf (Some query)) =
           [ParseString_call query ''<wazbean>''] \<and>
         filter is_MessageToJsonString_call
           (extern_calls (parse_bql_to_json P S d buf (Some query))) = []\<close>
  using assms by (simp add: parse_bql_to_json_null_ledger c_string_def)

theorem null_ledger_payload_witness:
  \<open>no_ledger ''2024-01-01 open Assets:Cash'' ''<wazbean>'' = None \<and>
   c_string (parse_bql_to_json no_ledger (appending empty_object) all_off ''{}''
               (Some ''2024-01-01 open Assets:Cash'')) =
     Some ''{"error": "Parser returned a null ledger."}'' \<and>
   extern_calls (parse_bql_to_json no_ledger (appending empty_object) all_off ''{}''
               (Some ''2024-01-01 open Assets:Cash'')) =
     [ParseString_call ''2024-01-01 open Assets:Cash'' ''<wazbean>'']\<close>
proof -
  have h: "no_ledger ''2024-01-01 open Assets:Cash'' ''<wazbean>'' = None"
    by (simp add: no_ledger_def)
  show ?thesis
    using h null_ledger_payload [where P = no_ledger and query = "''2024-01-01 open Assets:Cash''"
        and S = "appending empty_object" and d = all_off and buf = "''{}''"]
    by simp
qed

subsection \<open>The serialization-failure branch\<close>

text \<open>
  C5. When the input is not null, the parser returns a ledger and the serializer reports a
  status that is not ok, the function returns exactly
  \<^verbatim>\<open>{"error": "Failed to serialize ledger to JSON."}\<close>: whatever the serializer left in
  the buffer is replaced, so no partial output is part of the result.
\<close>

theorem serialize_failure_payload:
  assumes "P query ''<wazbean>'' = Some ledger"
    and "\<not> fst (S ledger buf (json_options d))"
  shows \<open>c_string (parse_bql_to_json P S d buf (Some query)) =
           Some ''{"error": "Failed to serialize ledger to JSON."}'' \<and>
         result_json (parse_bql_to_json P S d buf (Some query)) =
           ''{"error": "Failed to serialize ledger to JSON."}''\<close>
  using assms by (simp add: parse_bql_to_json_serialize_failed c_string_def)

theorem serialize_failure_payload_witness:
  \<open>text_ledger ''2024-01-01 open Assets:Cash'' ''<wazbean>'' =
     Some ''2024-01-01 open Assets:Cash'' \<and>
   appending truncated_object ''2024-01-01 open Assets:Cash'' ''{}'' (json_options all_off) =
     (False, ''{}{'') \<and>
   c_string (parse_bql_to_json text_ledger (appending truncated_object) all_off ''{}''
               (Some ''2024-01-01 open Assets:Cash'')) =
     Some ''{"error": "Failed to serialize ledger to JSON."}''\<close>
proof -
  have h1: "text_ledger ''2024-01-01 open Assets:Cash'' ''<wazbean>'' =
              Some ''2024-01-01 open Assets:Cash''"
    by (simp add: text_ledger_def)
  have h2: "appending truncated_object ''2024-01-01 open Assets:Cash'' ''{}''
              (json_options all_off) = (False, ''{}{'')"
    by (simp add: appending_def truncated_object_def)
  have h3: "\<not> fst (appending truncated_object ''2024-01-01 open Assets:Cash'' ''{}''
              (json_options all_off))"
    by (simp add: h2)
  show ?thesis
    using h1 h2 h3 serialize_failure_payload [where P = text_ledger
        and query = "''2024-01-01 open Assets:Cash''" and ledger = "''2024-01-01 open Assets:Cash''"
        and S = "appending truncated_object" and d = all_off and buf = "''{}''"]
    by simp
qed

subsection \<open>The options given to the serializer\<close>

text \<open>
  C6. On a call that reaches serialization (the input is not null and the parser returned a
  ledger) the serializer is applied once, to the ledger, the buffer and the options
  \<open>json_options d\<close>, and the outcome of the call is decided by what the serializer
  answers for exactly these options. In them \<^verbatim>\<open>add_whitespace\<close> and
  \<^verbatim>\<open>always_print_primitive_fields\<close> are true and every other member is as
  default-constructed. When the default-constructed struct has no option switched on, the
  options the serializer receives have exactly two switched on.
\<close>

theorem serializer_options:
  assumes "P query ''<wazbean>'' = Some ledger"
  shows \<open>parse_bql_to_json P S d buf (Some query) =
           (if fst (S ledger buf (json_options d)) then
              \<lparr>returned = result_json_c_str,
               result_json = snd (S ledger buf (json_options d)),
               exit_at = Return_serialized,
               extern_calls = [ParseString_call query ''<wazbean>'',
                               MessageToJsonString_call ledger buf (json_options d)]\<rparr>
            else
              \<lparr>returned = result_json_c_str,
               result_json = ''{"error": "Failed to serialize ledger to JSON."}'',
               exit_at = Return_serialize_failed,
               extern_calls = [ParseString_call query ''<wazbean>'',
                               MessageToJsonString_call ledger buf (json_options d)]\<rparr>) \<and>
         add_whitespace (json_options d) \<and>
         always_print_primitive_fields (json_options d) \<and>
         other_members (json_options d) = other_members d \<and>
         (enabled_options d = 0 \<longrightarrow> enabled_options (json_options d) = 2)\<close>
proof -
  have outcome: \<open>parse_bql_to_json P S d buf (Some query) =
           (if fst (S ledger buf (json_options d)) then
              \<lparr>returned = result_json_c_str,
               result_json = snd (S ledger buf (json_options d)),
               exit_at = Return_serialized,
               extern_calls = [ParseString_call query ''<wazbean>'',
                               MessageToJsonString_call ledger buf (json_options d)]\<rparr>
            else
              \<lparr>returned = result_json_c_str,
               result_json = ''{"error": "Failed to serialize ledger to JSON."}'',
               exit_at = Return_serialize_failed,
               extern_calls = [ParseString_call query ''<wazbean>'',
                               MessageToJsonString_call ledger buf (json_options d)]\<rparr>)\<close>
    using assms by (simp add: parse_bql_to_json_def Let_def)
  have flags: "add_whitespace (json_options d) \<and> always_print_primitive_fields (json_options d)
      \<and> other_members (json_options d) = other_members d"
    by (simp add: json_options_def)
  have two: "enabled_options d = 0 \<longrightarrow> enabled_options (json_options d) = 2"
    by (auto simp add: enabled_options_def json_options_def split: if_splits)
  from outcome flags two show ?thesis
    by blast
qed

theorem serializer_options_witness:
  \<open>text_ledger ''open'' ''<wazbean>'' = Some ''open'' \<and>
   enabled_options four_flags_off = 0 \<and>
   options_echo ''open'' four_flags_off = (True, ''wp'') \<and>
   result_json (parse_bql_to_json text_ledger (appending options_echo) four_flags_off []
     (Some ''open'')) = ''WP'' \<and>
   extern_calls (parse_bql_to_json text_ledger (appending options_echo) four_flags_off []
     (Some ''open'')) =
     [ParseString_call ''open'' ''<wazbean>'',
      MessageToJsonString_call ''open'' []
        \<lparr>add_whitespace = True, always_print_primitive_fields = True,
         other_members = [False, False]\<rparr>] \<and>
   enabled_options (json_options four_flags_off) = 2\<close>
proof -
  have p: "text_ledger ''open'' ''<wazbean>'' = Some ''open''"
    by (simp add: text_ledger_def)
  have z: "enabled_options four_flags_off = 0"
    by (simp add: enabled_options_def four_flags_off_def)
  have e: \<open>options_echo ''open'' four_flags_off = (True, ''wp'')\<close>
    by (simp add: options_echo_def four_flags_off_def)
  have j: "json_options four_flags_off =
      \<lparr>add_whitespace = True, always_print_primitive_fields = True,
       other_members = [False, False]\<rparr>"
    by (simp add: json_options_def four_flags_off_def)
  have a: \<open>appending options_echo ''open'' [] (json_options four_flags_off) = (True, ''WP'')\<close>
    by (simp add: j appending_def options_echo_def)
  note t = serializer_options [where P = text_ledger and query = "''open''"
      and ledger = "''open''" and S = "appending options_echo" and d = four_flags_off
      and buf = "[]", OF p]
  from t have r: \<open>parse_bql_to_json text_ledger (appending options_echo) four_flags_off []
      (Some ''open'') =
      \<lparr>returned = result_json_c_str,
       result_json = ''WP'',
       exit_at = Return_serialized,
       extern_calls = [ParseString_call ''open'' ''<wazbean>'',
                       MessageToJsonString_call ''open'' [] (json_options four_flags_off)]\<rparr>\<close>
    by (simp add: a)
  from t z have two: "enabled_options (json_options four_flags_off) = 2"
    by blast
  show ?thesis
    using p z e two by (simp add: r j)
qed

subsection \<open>The sequence of steps\<close>

text \<open>
  The control flow of one call. Every call has one of four shapes, and no other:
  \<^item> the input is null, no library call is made, and the buffer holds the null-input
    payload;
  \<^item> the parser is called once, with the input text and the label \<^verbatim>\<open><wazbean>\<close>,
    returns no ledger, and the buffer holds the null-ledger payload;
  \<^item> the parser is called once and then the serializer once, on the parser's ledger, the
    buffer and the two options; the status is not ok and the buffer holds the
    serialization-failure payload;
  \<^item> the same two calls, the status is ok, and the buffer is as the serializer left it,
    which need not be the JSON text of the ledger alone.
  No library function is called a second time.
\<close>

lemma call_shapes:
  \<open>(q = None \<and>
      extern_calls (parse_bql_to_json P S d buf q) = [] \<and>
      exit_at (parse_bql_to_json P S d buf q) = Return_null_input \<and>
      result_json (parse_bql_to_json P S d buf q) = ''{"error": "Input query was null."}'')
   \<or> (\<exists>query. q = Some query \<and> P query ''<wazbean>'' = None \<and>
      extern_calls (parse_bql_to_json P S d buf q) = [ParseString_call query ''<wazbean>''] \<and>
      exit_at (parse_bql_to_json P S d buf q) = Return_null_ledger \<and>
      result_json (parse_bql_to_json P S d buf q) =
        ''{"error": "Parser returned a null ledger."}'')
   \<or> (\<exists>query ledger. q = Some query \<and> P query ''<wazbean>'' = Some ledger \<and>
      extern_calls (parse_bql_to_json P S d buf q) =
        [ParseString_call query ''<wazbean>'',
         MessageToJsonString_call ledger buf (json_options d)] \<and>
      fst (S ledger buf (json_options d)) = False \<and>
      exit_at (parse_bql_to_json P S d buf q) = Return_serialize_failed \<and>
      result_json (parse_bql_to_json P S d buf q) =
        ''{"error": "Failed to serialize ledger to JSON."}'')
   \<or> (\<exists>query ledger. q = Some query \<and> P query ''<wazbean>'' = Some ledger \<and>
      extern_calls (parse_bql_to_json P S d buf q) =
        [ParseString_call query ''<wazbean>'',
         MessageToJsonString_call ledger buf (json_options d)] \<and>
      fst (S ledger buf (json_options d)) = True \<and>
      exit_at (parse_bql_to_json P S d buf q) = Return_serialized \<and>
      result_json (parse_bql_to_json P S d buf q) = snd (S ledger buf (json_options d)))\<close>
proof (cases q)
  case None
  then show ?thesis
    by (simp add: parse_bql_to_json_null)
next
  case (Some query)
  show ?thesis
  proof (cases "P query ''<wazbean>''")
    case None
    with Some show ?thesis
      by (simp add: parse_bql_to_json_null_ledger)
  next
    case ledger: (Some ledger)
    show ?thesis
    proof (cases "fst (S ledger buf (json_options d))")
      case True
      with Some ledger show ?thesis
        by (simp add: parse_bql_to_json_serialized)
    next
      case False
      with Some ledger show ?thesis
        by (simp add: parse_bql_to_json_serialize_failed)
    qed
  qed
qed

subsection \<open>Error branches across successive calls\<close>





subsection \<open>The serialized branch and the contents left by earlier calls\<close>

text \<open>
  C1. The claim is that a call on which parsing and serialization succeed returns exactly
  the JSON text the serializer produces for the parsed ledger, with nothing before or
  after it. The function hands the serializer the global buffer without clearing it. With a
  serializer that appends, a call made when the buffer still holds \<^verbatim>\<open>{}\<close> from an
  earlier call: the parser returns a ledger, the serializer reports success and produces
  \<^verbatim>\<open>{}\<close> for it, the function leaves through the last \<^verbatim>\<open>return\<close>, and the text
  returned is \<^verbatim>\<open>{}{}\<close>, the earlier result followed by the new one.
\<close>

theorem serialized_result_keeps_previous_contents:
  \<open>text_ledger ''2024-01-01 open Assets:Cash'' ''<wazbean>'' =
     Some ''2024-01-01 open Assets:Cash'' \<and>
   empty_object ''2024-01-01 open Assets:Cash'' (json_options all_off) = (True, ''{}'') \<and>
   exit_at (parse_bql_to_json text_ledger (appending empty_object) all_off ''{}''
              (Some ''2024-01-01 open Assets:Cash'')) = Return_serialized \<and>
   c_string (parse_bql_to_json text_ledger (appending empty_object) all_off ''{}''
              (Some ''2024-01-01 open Assets:Cash'')) = Some ''{}{}'' \<and>
   c_string (parse_bql_to_json text_ledger (appending empty_object) all_off ''{}''
              (Some ''2024-01-01 open Assets:Cash'')) \<noteq> Some ''{}''\<close>
  by (simp add: parse_bql_to_json_def Let_def c_string_def text_ledger_def appending_def
      empty_object_def)

text \<open>
  C2. The claim is that the returned text depends on the argument alone. In a process that
  calls the function twice with the same argument, with the same parser and a serializer
  that appends, the first call returns \<^verbatim>\<open>{}\<close> and the second returns
  \<^verbatim>\<open>{}{}\<close>: the result of the second call depends on the call before it.
\<close>

theorem same_input_different_results:
  \<open>map c_string (session text_ledger (appending empty_object) all_off
      [Some ''2024-01-01 open Assets:Cash'', Some ''2024-01-01 open Assets:Cash'']) =
     [Some ''{}'', Some ''{}{}'']\<close>
  by (simp add: session_def parse_bql_to_json_def Let_def c_string_def text_ledger_def
      appending_def empty_object_def)

text \<open>
  C7. The claim is that every call goes through the fixed sequence of steps and returns
  either the serialized result or one of the three fixed error strings, nothing else. The
  steps are as claimed (\<open>call_shapes\<close>), the returned text is not. In a process that
  first calls the function with the null pointer and then with a text the parser accepts,
  with a serializer that appends, the second call makes the two library calls once each,
  the serializer reports success and produces \<^verbatim>\<open>{}\<close>, and the function leaves
  through the last \<^verbatim>\<open>return\<close>. The text it returns is the null-input payload of the
  first call followed by \<^verbatim>\<open>{}\<close>: neither the serialized result nor any of the three
  error strings.
\<close>

theorem serialized_after_error_is_neither:
  \<open>map exit_at (session text_ledger (appending empty_object) all_off [None, Some ''open'']) =
     [Return_null_input, Return_serialized] \<and>
   map extern_calls (session text_ledger (appending empty_object) all_off [None, Some ''open'']) =
     [[],
      [ParseString_call ''open'' ''<wazbean>'',
       MessageToJsonString_call ''open'' ''{"error": "Input query was null."}''
         (json_options all_off)]] \<and>
   empty_object ''open'' (json_options all_off) = (True, ''{}'') \<and>
   map c_string (session text_ledger (appending empty_object) all_off [None, Some ''open'']) =
     [Some ''{"error": "Input query was null."}'',
      Some ''{"error": "Input query was null."}{}''] \<and>
   ''{"error": "Input query was null."}{}'' \<notin>
     {''{}'',
      ''{"error": "Input query was null."}'',
      ''{"error": "Parser returned a null ledger."}'',
      ''{"error": "Failed to serialize ledger to JSON."}''}\<close>
  by (simp add: session_def parse_bql_to_json_def Let_def c_string_def text_ledger_def
      appending_def empty_object_def)

end
